theory Spec2Isabelle
  imports Complex_Main
begin

section \<open>Python values and exceptions\<close>

text \<open>
  The rule engine works on dynamically typed data: rule conditions and actions are JSON
  columns, the transaction is a dictionary. \<open>jv\<close> is the universe of such values.
  Python's \<open>int\<close> and \<open>float\<close> are both \<open>JNum\<close> (a real number; NaN and the
  infinities are outside the model), \<open>bool\<close> is kept apart because it prints and tests
  differently but counts as a number in comparisons, as in Python.
\<close>

datatype jv =
    JNone
  | JBool bool
  | JNum real
  | JStr string
  | JList "jv list"
  | JDict "(string \<times> jv) list"

datatype exn =
    TypeError
  | ValueError
  | ConnectionError
  | IntegrityError
  | ValidationError
  | ModelError
  | HTTPException nat

text \<open>\<open>isinstance(v, (int, float))\<close>, with the number it stands for: \<open>True\<close> is 1.\<close>

fun num_of :: "jv \<Rightarrow> real option" where
  "num_of (JBool b) = Some (if b then 1 else 0)"
| "num_of (JNum r) = Some r"
| "num_of JNone = None"
| "num_of (JStr s) = None"
| "num_of (JList xs) = None"
| "num_of (JDict kvs) = None"

fun is_list :: "jv \<Rightarrow> bool" where
  "is_list (JList xs) = True"
| "is_list JNone = False"
| "is_list (JBool b) = False"
| "is_list (JNum r) = False"
| "is_list (JStr s) = False"
| "is_list (JDict kvs) = False"

subsection \<open>\<open>==\<close>\<close>

text \<open>
  Python's \<open>a == b\<close> on these values never raises: numbers compare by value, strings and
  \<open>None\<close> structurally, lists element by element, dictionaries by size and by the value
  under each key; values of different kinds are unequal.
\<close>

fun py_eq :: "jv \<Rightarrow> jv \<Rightarrow> bool"
  and py_eq_list :: "jv list \<Rightarrow> jv list \<Rightarrow> bool"
  and py_eq_items :: "(string \<times> jv) list \<Rightarrow> (string \<times> jv) list \<Rightarrow> bool"
where
  "py_eq JNone b = (case b of JNone \<Rightarrow> True | _ \<Rightarrow> False)"
| "py_eq (JBool x) b = (case num_of b of Some r \<Rightarrow> (if x then 1 else 0) = r | None \<Rightarrow> False)"
| "py_eq (JNum x) b = (case num_of b of Some r \<Rightarrow> x = r | None \<Rightarrow> False)"
| "py_eq (JStr s) b = (case b of JStr t \<Rightarrow> s = t | _ \<Rightarrow> False)"
| "py_eq (JList xs) b = (case b of JList ys \<Rightarrow> py_eq_list xs ys | _ \<Rightarrow> False)"
| "py_eq (JDict xs) b =
     (case b of JDict ys \<Rightarrow> length xs = length ys \<and> py_eq_items xs ys | _ \<Rightarrow> False)"
| "py_eq_list [] ys = (case ys of [] \<Rightarrow> True | _ \<Rightarrow> False)"
| "py_eq_list (x # xs) ys =
     (case ys of [] \<Rightarrow> False | y # ys' \<Rightarrow> py_eq x y \<and> py_eq_list xs ys')"
| "py_eq_items [] ys = True"
| "py_eq_items (kv # xs) ys =
     ((case map_of ys (fst kv) of None \<Rightarrow> False | Some w \<Rightarrow> py_eq (snd kv) w)
      \<and> py_eq_items xs ys)"

subsection \<open>\<open>>\<close>, \<open>>=\<close>, \<open><\<close>, \<open><=\<close>\<close>

datatype cmp_op = Gt | Ge | Lt | Le

fun cmp_real :: "cmp_op \<Rightarrow> real \<Rightarrow> real \<Rightarrow> bool" where
  "cmp_real Gt a b = (a > b)"
| "cmp_real Ge a b = (a \<ge> b)"
| "cmp_real Lt a b = (a < b)"
| "cmp_real Le a b = (a \<le> b)"

fun cmp_nat :: "cmp_op \<Rightarrow> nat \<Rightarrow> nat \<Rightarrow> bool" where
  "cmp_nat Gt a b = (a > b)"
| "cmp_nat Ge a b = (a \<ge> b)"
| "cmp_nat Lt a b = (a < b)"
| "cmp_nat Le a b = (a \<le> b)"

text \<open>Strings are ordered lexicographically by character code.\<close>

fun str_lt :: "string \<Rightarrow> string \<Rightarrow> bool" where
  "str_lt [] [] = False"
| "str_lt [] (y # ys) = True"
| "str_lt (x # xs) [] = False"
| "str_lt (x # xs) (y # ys) =
     (if x = y then str_lt xs ys else (of_char x :: nat) < of_char y)"

fun cmp_str :: "cmp_op \<Rightarrow> string \<Rightarrow> string \<Rightarrow> bool" where
  "cmp_str Gt s t = str_lt t s"
| "cmp_str Ge s t = (\<not> str_lt s t)"
| "cmp_str Lt s t = str_lt s t"
| "cmp_str Le s t = (\<not> str_lt t s)"

text \<open>
  An ordering comparison raises \<open>TypeError\<close> unless both sides are numbers, both strings
  or both lists. Two lists are compared at the first position where they differ
  (by \<open>==\<close>), or by length when one is a prefix of the other.
\<close>

fun py_cmp :: "cmp_op \<Rightarrow> jv \<Rightarrow> jv \<Rightarrow> exn + bool"
  and py_cmp_list :: "cmp_op \<Rightarrow> jv list \<Rightarrow> jv list \<Rightarrow> exn + bool"
where
  "py_cmp opr JNone b = Inl TypeError"
| "py_cmp opr (JBool x) b =
     (case num_of b of Some r \<Rightarrow> Inr (cmp_real opr (if x then 1 else 0) r)
      | None \<Rightarrow> Inl TypeError)"
| "py_cmp opr (JNum x) b =
     (case num_of b of Some r \<Rightarrow> Inr (cmp_real opr x r) | None \<Rightarrow> Inl TypeError)"
| "py_cmp opr (JStr s) b =
     (case b of JStr t \<Rightarrow> Inr (cmp_str opr s t) | _ \<Rightarrow> Inl TypeError)"
| "py_cmp opr (JList xs) b =
     (case b of JList ys \<Rightarrow> py_cmp_list opr xs ys | _ \<Rightarrow> Inl TypeError)"
| "py_cmp opr (JDict xs) b = Inl TypeError"
| "py_cmp_list opr [] ys = Inr (cmp_nat opr 0 (length ys))"
| "py_cmp_list opr (x # xs) ys =
     (case ys of
        [] \<Rightarrow> Inr (cmp_nat opr (Suc (length xs)) 0)
      | y # ys' \<Rightarrow> if py_eq x y then py_cmp_list opr xs ys' else py_cmp opr x y)"

subsection \<open>\<open>in\<close>\<close>

fun starts_with :: "string \<Rightarrow> string \<Rightarrow> bool" where
  "starts_with s [] = True"
| "starts_with [] (p # ps) = False"
| "starts_with (c # cs) (p # ps) = (c = p \<and> starts_with cs ps)"

text \<open>\<open>t in s\<close> for two strings: \<open>t\<close> occurs in \<open>s\<close> as a substring.\<close>

fun str_contains :: "string \<Rightarrow> string \<Rightarrow> bool" where
  "str_contains [] t = (t = [])"
| "str_contains (c # cs) t = (starts_with (c # cs) t \<or> str_contains cs t)"

text \<open>\<open>a in b\<close> for a list \<open>b\<close>: some element equals \<open>a\<close>.\<close>

definition list_contains :: "jv list \<Rightarrow> jv \<Rightarrow> bool" where
  "list_contains b a = list_ex (\<lambda>y. py_eq y a) b"

section \<open>Requests and responses\<close>

text \<open>\<open>TransactionRequest\<close> and \<open>TransactionResponse\<close> of \<open>schemas.py\<close>; times are seconds.\<close>

record transaction_request =
  user_id :: string
  amount :: real
  currency :: string
  location :: "string option"
  merchant_id :: "string option"
  card_number_hash :: "string option"
  transaction_type :: string
  idempotency_key :: string
  metadata :: "(string \<times> jv) list option"

record transaction_response =
  transaction_id :: string
  status :: string
  is_fraud :: bool
  risk_score :: real
  resp_rule_score :: real
  ml_score :: real
  message :: "string option"
  created_at :: nat

text \<open>
  Library functions of Python are taken as parameters: \<open>float(s)\<close> on a string
  (\<open>None\<close> is its \<open>ValueError\<close>), \<open>str(xs)\<close> on a list,
  \<open>json.dumps(body, sort_keys=True)\<close> on a request body and
  \<open>hashlib.sha256(...).hexdigest()\<close>.
\<close>

record builtins =
  py_float :: "string \<Rightarrow> real option"
  py_str :: "jv list \<Rightarrow> string"
  json_dumps :: "transaction_request \<Rightarrow> string"
  sha256 :: "string \<Rightarrow> string"

text \<open>
  A response dictionary is either the one \<open>TransactionResponse.dict()\<close> returns, whose
  \<open>created_at\<close> is a \<open>datetime\<close> object, or one decoded from JSON (\<open>None\<close> for the
  empty dictionary), whose \<open>created_at\<close> is a string. \<open>json.dumps\<close>, which
  \<open>set_idempotency_response\<close> calls and which the JSON column of the table applies
  to \<open>response_data\<close>, raises \<open>TypeError\<close> on a \<open>datetime\<close>; on a dictionary
  decoded from JSON it gives back the text it was decoded from.
\<close>

datatype response_dict =
    FromModel transaction_response
  | FromJson "transaction_response option"

fun json_dumps_response :: "response_dict \<Rightarrow> exn + transaction_response option" where
  "json_dumps_response (FromModel r) = Inl TypeError"
| "json_dumps_response (FromJson p) = Inr p"

section \<open>Rule engine\<close>

text \<open>
  A leaf predicate is the dictionary \<open>{field, operator, value}\<close>. \<open>condition.get\<close>
  gives \<open>None\<close> for a missing key, so \<open>field\<close> and \<open>operator\<close> are optional strings
  and a missing \<open>value\<close> is \<open>JNone\<close>. A transaction is a dictionary from attribute
  names to values.
\<close>

record condition =
  cond_field :: "string option"
  cond_operator :: "string option"
  cond_value :: jv

type_synonym transaction = "string \<rightharpoonup> jv"

text \<open>
  The table \<open>operators\<close> of \<open>evaluate_condition\<close>: \<open>None\<close> when the operator is not a
  key of the table, otherwise what the closure returns or raises.
\<close>

definition py_contains :: "builtins \<Rightarrow> jv \<Rightarrow> jv \<Rightarrow> exn + bool" where
  "py_contains bi a b =
     (case a of
        JStr s \<Rightarrow> (case b of JStr t \<Rightarrow> Inr (str_contains s t) | _ \<Rightarrow> Inl TypeError)
      | JList xs \<Rightarrow>
          (case b of JStr t \<Rightarrow> Inr (str_contains (py_str bi xs) t) | _ \<Rightarrow> Inl TypeError)
      | _ \<Rightarrow> Inr False)"

definition operators :: "builtins \<Rightarrow> string \<Rightarrow> (jv \<Rightarrow> jv \<Rightarrow> exn + bool) option" where
  "operators bi opr =
     (if opr = ''=='' then Some (\<lambda>a b. Inr (py_eq a b))
      else if opr = ''!='' then Some (\<lambda>a b. Inr (\<not> py_eq a b))
      else if opr = ''>'' then Some (\<lambda>a b. py_cmp Gt a b)
      else if opr = ''>='' then Some (\<lambda>a b. py_cmp Ge a b)
      else if opr = ''<'' then Some (\<lambda>a b. py_cmp Lt a b)
      else if opr = ''<='' then Some (\<lambda>a b. py_cmp Le a b)
      else if opr = ''in'' then
        Some (\<lambda>a b. case b of JList ys \<Rightarrow> Inr (list_contains ys a) | _ \<Rightarrow> Inr False)
      else if opr = ''not_in'' then
        Some (\<lambda>a b. case b of JList ys \<Rightarrow> Inr (\<not> list_contains ys a) | _ \<Rightarrow> Inr True)
      else if opr = ''contains'' then Some (\<lambda>a b. py_contains bi a b)
      else None)"

text \<open>\<open>try: ... except (TypeError, ValueError): return False\<close>\<close>

fun except_type_value :: "exn + bool \<Rightarrow> exn + bool" where
  "except_type_value (Inl TypeError) = Inr False"
| "except_type_value (Inl ValueError) = Inr False"
| "except_type_value r = r"

text \<open>
  The conversion before the comparison: a string attribute is parsed as a number when
  the rule's value is a number; \<open>None\<close> is the early \<open>return False\<close> on a failed parse.
\<close>

definition coerce :: "builtins \<Rightarrow> jv \<Rightarrow> jv \<Rightarrow> jv option" where
  "coerce bi v tv =
     (case (num_of v, tv) of
        (Some n, JStr s) \<Rightarrow> (case py_float bi s of None \<Rightarrow> None | Some r \<Rightarrow> Some (JNum r))
      | _ \<Rightarrow> Some tv)"

definition evaluate_condition :: "builtins \<Rightarrow> condition \<Rightarrow> transaction \<Rightarrow> exn + bool" where
  "evaluate_condition bi c t =
     (case cond_field c of
        None \<Rightarrow> Inr False
      | Some f \<Rightarrow>
          (case t f of
             None \<Rightarrow> Inr False
           | Some tv \<Rightarrow>
               (case coerce bi (cond_value c) tv of
                  None \<Rightarrow> Inr False
                | Some a \<Rightarrow>
                    (case cond_operator c of
                       None \<Rightarrow> Inr False
                     | Some opr \<Rightarrow>
                         (case operators bi opr of
                            None \<Rightarrow> Inr False
                          | Some g \<Rightarrow> except_type_value (g a (cond_value c)))))))"

text \<open>
  \<open>all(...)\<close> and \<open>any(...)\<close> over a generator stop at the first deciding element; an
  exception of an element reached before that propagates.
\<close>

fun all_conditions :: "builtins \<Rightarrow> condition list \<Rightarrow> transaction \<Rightarrow> exn + bool" where
  "all_conditions bi [] t = Inr True"
| "all_conditions bi (c # cs) t =
     (case evaluate_condition bi c t of
        Inl e \<Rightarrow> Inl e
      | Inr b \<Rightarrow> if b then all_conditions bi cs t else Inr False)"

fun any_condition :: "builtins \<Rightarrow> condition list \<Rightarrow> transaction \<Rightarrow> exn + bool" where
  "any_condition bi [] t = Inr False"
| "any_condition bi (c # cs) t =
     (case evaluate_condition bi c t of
        Inl e \<Rightarrow> Inl e
      | Inr b \<Rightarrow> if b then Inr True else any_condition bi cs t)"

text \<open>\<open>str.upper()\<close> on ASCII letters.\<close>

definition upper_char :: "char \<Rightarrow> char" where
  "upper_char c =
     (if (97::nat) \<le> of_char c \<and> of_char c \<le> (122::nat)
      then char_of (of_char c - (32::nat)) else c)"

definition upper :: "string \<Rightarrow> string" where
  "upper s = map upper_char s"

text \<open>
  A rule's condition either has a key \<open>logic\<close> (with the list under \<open>conditions\<close>,
  empty when the key is missing) or is a single leaf. The members of the list are
  evaluated as leaves: a nested combinator has no \<open>field\<close> and is false.
\<close>

datatype conditions =
    Single condition
  | Logic string "condition list"

fun evaluate_conditions :: "builtins \<Rightarrow> conditions \<Rightarrow> transaction \<Rightarrow> exn + bool" where
  "evaluate_conditions bi (Logic l cs) t =
     (if upper l = ''AND'' then all_conditions bi cs t
      else if upper l = ''OR'' then any_condition bi cs t
      else Inr False)"
| "evaluate_conditions bi (Single c) t = evaluate_condition bi c t"

text \<open>
  \<open>rule_actions\<close> is a JSON column: a dictionary (each key listed once) with the
  optional keys \<open>risk_score\<close> and \<open>flag\<close>, whose values can be any JSON value; the
  column itself may be null.
\<close>

record fraud_rule =
  rule_id :: int
  rule_name :: string
  rule_condition :: conditions
  rule_actions :: "(string \<times> jv) list option"
  is_active :: bool
  priority :: int

record triggered_rule =
  tr_rule_name :: string
  tr_rule_id :: int
  tr_risk_score :: jv

record rule_result =
  rule_score :: real
  triggered_rules :: "triggered_rule list"
  flags :: "string list"

text \<open>The truth value of a Python value, as \<open>if v:\<close> tests it.\<close>

fun truthy :: "jv \<Rightarrow> bool" where
  "truthy JNone = False"
| "truthy (JBool b) = b"
| "truthy (JNum r) = (r \<noteq> 0)"
| "truthy (JStr s) = (s \<noteq> [])"
| "truthy (JList xs) = (xs \<noteq> [])"
| "truthy (JDict kvs) = (kvs \<noteq> [])"

text \<open>
  \<open>actions = rule.rule_actions or {}\<close>, \<open>actions.get("risk_score", 0.5)\<close> and
  \<open>actions.get("flag", False)\<close>
\<close>

definition get_actions :: "fraud_rule \<Rightarrow> (string \<times> jv) list" where
  "get_actions r = (case rule_actions r of None \<Rightarrow> [] | Some a \<Rightarrow> a)"

definition get_risk_score :: "fraud_rule \<Rightarrow> jv" where
  "get_risk_score r =
     (case map_of (get_actions r) ''risk_score'' of None \<Rightarrow> JNum 0.5 | Some v \<Rightarrow> v)"

definition get_flag :: "fraud_rule \<Rightarrow> jv" where
  "get_flag r =
     (case map_of (get_actions r) ''flag'' of None \<Rightarrow> JBool False | Some v \<Rightarrow> v)"

text \<open>
  The loop over \<open>self.rules\<close>; the accumulator is the three local variables. The test
  \<open>risk_score > rule_score\<close> raises \<open>TypeError\<close> when the risk score is not a number;
  when it holds, the risk score (a number) becomes the rule score.
\<close>

fun rules_loop ::
  "builtins \<Rightarrow> transaction \<Rightarrow> fraud_rule list \<Rightarrow> rule_result \<Rightarrow> exn + rule_result"
where
  "rules_loop bi t [] acc = Inr acc"
| "rules_loop bi t (r # rs) acc =
     (case evaluate_conditions bi (rule_condition r) t of
        Inl e \<Rightarrow> Inl e
      | Inr b \<Rightarrow>
          if b then
            (case py_cmp Gt (get_risk_score r) (JNum (rule_score acc)) of
               Inl e \<Rightarrow> Inl e
             | Inr gt \<Rightarrow>
                 rules_loop bi t rs
                   \<lparr> rule_score =
                       (if gt
                        then (case num_of (get_risk_score r) of
                                Some x \<Rightarrow> x | None \<Rightarrow> rule_score acc)
                        else rule_score acc),
                     triggered_rules = triggered_rules acc @
                       [\<lparr> tr_rule_name = rule_name r, tr_rule_id = rule_id r,
                          tr_risk_score = get_risk_score r \<rparr>],
                     flags = (if truthy (get_flag r) then flags acc @ [rule_name r]
                              else flags acc) \<rparr>)
          else rules_loop bi t rs acc)"

text \<open>
  \<open>evaluate_transaction\<close> on the rules already loaded into \<open>self.rules\<close> (the active
  rules, by descending priority).
\<close>

definition evaluate_transaction ::
  "builtins \<Rightarrow> fraud_rule list \<Rightarrow> transaction \<Rightarrow> exn + rule_result"
where
  "evaluate_transaction bi rules t =
     (case rules_loop bi t rules \<lparr> rule_score = 0, triggered_rules = [], flags = [] \<rparr> of
        Inl e \<Rightarrow> Inl e
      | Inr acc \<Rightarrow> Inr (acc \<lparr> rule_score := min (rule_score acc) 1 \<rparr>))"

section \<open>Stores and environment\<close>

text \<open>
  The rows of \<open>models.py\<close> that the pipeline reads or writes. An \<open>IdempotencyKey\<close> row
  is stored under its key; its \<open>response_data\<close> column is nullable.
\<close>

record idempotency_row =
  request_hash :: string
  response_data :: "transaction_response option"
  expires_at :: nat

record transaction_row =
  row_transaction_id :: string
  row_request :: transaction_request
  row_rule_score :: real
  row_ml_score :: real
  row_final_risk_score :: real
  row_is_fraud :: bool
  row_is_approved :: bool
  row_created_at :: nat

text \<open>The cached profile dictionary; each key may be missing.\<close>

record user_profile =
  profile_risk_score :: "real option"
  home_location :: "string option"
  average_transaction_amount :: "real option"
  transaction_count :: "real option"

datatype task =
    SendFraudAlertEmail string string real
  | UpdateUserProfile string transaction

text \<open>
  The state outside the process: the two Redis key spaces (an entry with the instant at
  which it expires), the tables, and the task queue.
\<close>

record world =
  idem_cache :: "string \<rightharpoonup> (transaction_response option \<times> nat)"
  profile_cache :: "string \<rightharpoonup> (user_profile \<times> nat)"
  idempotency_keys :: "string \<rightharpoonup> idempotency_row"
  transactions :: "transaction_row list"
  users :: "string set"
  fraud_rules :: "fraud_rule list"
  queue :: "task list"

text \<open>
  What one request finds around it: the clocks, the identifier \<open>uuid.uuid4()\<close> returns,
  whether Redis, the database and the task broker answer, and the anomaly model
  (\<open>None\<close> when it cannot be loaded; otherwise its \<open>decision_function\<close>).
\<close>

record env =
  utcnow :: nat
  db_now :: nat
  hour :: nat
  weekday :: nat
  uuid4 :: string
  redis_up :: bool
  db_up :: bool
  broker_up :: bool
  model :: "(real list \<Rightarrow> real) option"

definition REDIS_TTL :: nat where
  "REDIS_TTL = 300"

section \<open>Redis cache\<close>

text \<open>
  A cached payload that is the empty dictionary is \<open>None\<close>: the callers test the
  payload for truth and treat both alike.
\<close>

definition get_idempotency_response ::
  "env \<Rightarrow> world \<Rightarrow> string \<Rightarrow> exn + transaction_response option"
where
  "get_idempotency_response e w k =
     (if \<not> redis_up e then Inl ConnectionError
      else case idem_cache w k of
             None \<Rightarrow> Inr None
           | Some ent \<Rightarrow> if utcnow e < snd ent then Inr (fst ent) else Inr None)"

text \<open>The argument of \<open>setex\<close>, \<open>json.dumps(response)\<close>, is evaluated before the call.\<close>

definition set_idempotency_response ::
  "env \<Rightarrow> world \<Rightarrow> string \<Rightarrow> response_dict \<Rightarrow> nat \<Rightarrow> exn + world"
where
  "set_idempotency_response e w k resp ttl =
     (case json_dumps_response resp of
        Inl x \<Rightarrow> Inl x
      | Inr p \<Rightarrow>
          if \<not> redis_up e then Inl ConnectionError
          else Inr (w \<lparr> idem_cache := (idem_cache w)(k \<mapsto> (p, utcnow e + ttl)) \<rparr>))"

definition get_user_profile :: "env \<Rightarrow> world \<Rightarrow> string \<Rightarrow> exn + user_profile option" where
  "get_user_profile e w uid =
     (if \<not> redis_up e then Inl ConnectionError
      else case profile_cache w uid of
             None \<Rightarrow> Inr None
           | Some ent \<Rightarrow> if utcnow e < snd ent then Inr (Some (fst ent)) else Inr None)"

definition set_user_profile :: "env \<Rightarrow> world \<Rightarrow> string \<Rightarrow> user_profile \<Rightarrow> exn + world" where
  "set_user_profile e w uid p =
     (if \<not> redis_up e then Inl ConnectionError
      else Inr (w \<lparr> profile_cache := (profile_cache w)(uid \<mapsto> (p, utcnow e + REDIS_TTL)) \<rparr>))"

section \<open>Idempotency\<close>

definition generate_request_hash :: "builtins \<Rightarrow> transaction_request \<Rightarrow> string" where
  "generate_request_hash bi body = sha256 bi (json_dumps bi body)"

text \<open>
  \<open>check_idempotency_key\<close>: the cache first, then the table. The stored hash is
  compared before the expiry is looked at.
\<close>

definition check_idempotency_key ::
  "builtins \<Rightarrow> env \<Rightarrow> world \<Rightarrow> string \<Rightarrow> transaction_request
     \<Rightarrow> (exn + transaction_response option) \<times> world"
where
  "check_idempotency_key bi e w k body =
     (case get_idempotency_response e w k of
        Inl x \<Rightarrow> (Inl x, w)
      | Inr (Some r) \<Rightarrow> (Inr (Some r), w)
      | Inr None \<Rightarrow>
          if \<not> db_up e then (Inl ConnectionError, w)
          else
            (case idempotency_keys w k of
               None \<Rightarrow> (Inr None, w)
             | Some rec \<Rightarrow>
                 if request_hash rec = generate_request_hash bi body then
                   if expires_at rec > utcnow e then
                     (case set_idempotency_response e w k (FromJson (response_data rec)) 3600 of
                        Inl x \<Rightarrow> (Inl x, w)
                      | Inr w' \<Rightarrow> (Inr (response_data rec), w'))
                   else (Inr None, w \<lparr> idempotency_keys := (idempotency_keys w)(k := None) \<rparr>)
                 else (Inl (HTTPException 409), w)))"

text \<open>
  \<open>store_idempotency_key\<close>: the row is inserted (the database must answer, the
  response must serialise into the JSON column, the key must be new), then the response
  is cached for the same time.
\<close>

definition store_idempotency_key ::
  "builtins \<Rightarrow> env \<Rightarrow> world \<Rightarrow> string \<Rightarrow> transaction_request \<Rightarrow> response_dict
     \<Rightarrow> nat \<Rightarrow> (exn + unit) \<times> world"
where
  "store_idempotency_key bi e w k body resp ttl_hours =
     (if \<not> db_up e then (Inl ConnectionError, w)
      else
        (case json_dumps_response resp of
           Inl x \<Rightarrow> (Inl x, w)
         | Inr p \<Rightarrow>
             if idempotency_keys w k \<noteq> None then (Inl IntegrityError, w)
             else
               (let w1 = w \<lparr> idempotency_keys := (idempotency_keys w)
                               (k \<mapsto> \<lparr> request_hash = generate_request_hash bi body,
                                       response_data = p,
                                       expires_at = utcnow e + ttl_hours * 3600 \<rparr>) \<rparr>
                in case set_idempotency_response e w1 k resp (ttl_hours * 3600) of
                     Inl x \<Rightarrow> (Inl x, w1)
                   | Inr w2 \<Rightarrow> (Inr (), w2))))"

section \<open>Anomaly scorer\<close>

text \<open>\<open>float(v)\<close> on a value.\<close>

definition float_of :: "builtins \<Rightarrow> jv \<Rightarrow> exn + real" where
  "float_of bi v =
     (case v of
        JNum r \<Rightarrow> Inr r
      | JBool b \<Rightarrow> Inr (if b then 1 else 0)
      | JStr s \<Rightarrow> (case py_float bi s of None \<Rightarrow> Inl ValueError | Some r \<Rightarrow> Inr r)
      | _ \<Rightarrow> Inl TypeError)"

text \<open>
  The amount-deviation feature. \<open>avg_amount\<close> is the profile's average, or the
  transaction's amount when the profile has none.
\<close>

definition amount_deviation :: "jv \<Rightarrow> user_profile option \<Rightarrow> exn + real" where
  "amount_deviation amt prof =
     (case prof of
        None \<Rightarrow> Inr 1
      | Some p \<Rightarrow>
          (let avg = (case average_transaction_amount p of None \<Rightarrow> amt | Some a \<Rightarrow> JNum a)
           in case py_cmp Gt avg (JNum 0) of
                Inl x \<Rightarrow> Inl x
              | Inr pos \<Rightarrow>
                  if pos then
                    (case (num_of amt, num_of avg) of
                       (Some a, Some g) \<Rightarrow> Inr (\<bar>a - g\<bar> / g)
                     | _ \<Rightarrow> Inl TypeError)
                  else Inr 1))"

definition location_different :: "transaction \<Rightarrow> user_profile option \<Rightarrow> real" where
  "location_different t prof =
     (case prof of
        None \<Rightarrow> 0
      | Some p \<Rightarrow>
          (case home_location p of
             None \<Rightarrow> 0
           | Some h \<Rightarrow>
               if h \<noteq> [] \<and> \<not> py_eq (case t ''location'' of None \<Rightarrow> JNone | Some l \<Rightarrow> l) (JStr h)
               then 1 else 0))"

definition frequency :: "user_profile option \<Rightarrow> real" where
  "frequency prof =
     (case prof of
        None \<Rightarrow> 0
      | Some p \<Rightarrow>
          min ((case transaction_count p of None \<Rightarrow> 0 | Some c \<Rightarrow> c) / 1000) 1)"

definition extract_features ::
  "builtins \<Rightarrow> env \<Rightarrow> transaction \<Rightarrow> user_profile option \<Rightarrow> exn + real list"
where
  "extract_features bi e t prof =
     (let amt = (case t ''amount'' of None \<Rightarrow> JNum 0 | Some v \<Rightarrow> v)
      in case float_of bi amt of
           Inl x \<Rightarrow> Inl x
         | Inr a \<Rightarrow>
             (case amount_deviation amt prof of
                Inl x \<Rightarrow> Inl x
              | Inr d \<Rightarrow>
                  Inr [a, real (hour e), real (weekday e), d,
                       location_different t prof, frequency prof]))"

text \<open>
  \<open>score_transaction\<close>: the model is loaded if need be, the features extracted, and the
  model's decision value passed through the logistic function.
\<close>

definition score_transaction ::
  "builtins \<Rightarrow> env \<Rightarrow> transaction \<Rightarrow> user_profile option \<Rightarrow> exn + real"
where
  "score_transaction bi e t prof =
     (case model e of
        None \<Rightarrow> Inl ModelError
      | Some decision_function \<Rightarrow>
          (case extract_features bi e t prof of
             Inl x \<Rightarrow> Inl x
           | Inr fs \<Rightarrow> Inr (1 / (1 + exp (decision_function fs)))))"

section \<open>Pipeline\<close>

definition opt_str :: "string option \<Rightarrow> jv" where
  "opt_str s = (case s of None \<Rightarrow> JNone | Some x \<Rightarrow> JStr x)"

text \<open>The dictionary \<open>transaction_data\<close> built for the rule engine and the scorer.\<close>

definition transaction_data :: "transaction_request \<Rightarrow> transaction" where
  "transaction_data txn =
     [ ''amount'' \<mapsto> JNum (amount txn),
       ''location'' \<mapsto> opt_str (location txn),
       ''user_id'' \<mapsto> JStr (user_id txn),
       ''merchant_id'' \<mapsto> opt_str (merchant_id txn),
       ''transaction_type'' \<mapsto> JStr (transaction_type txn) ]"

definition default_profile :: user_profile where
  "default_profile =
     \<lparr> profile_risk_score = Some 0.1, home_location = None,
       average_transaction_amount = Some 0, transaction_count = Some 0 \<rparr>"

text \<open>
  The profile block: a profile that cannot be read or is not cached is replaced by the
  default one, which is written to the cache when Redis answers.
\<close>

definition load_profile :: "env \<Rightarrow> world \<Rightarrow> string \<Rightarrow> user_profile \<times> world" where
  "load_profile e w uid =
     (case (case get_user_profile e w uid of Inl x \<Rightarrow> None | Inr p \<Rightarrow> p) of
        Some p \<Rightarrow> (p, w)
      | None \<Rightarrow>
          (case set_user_profile e w uid default_profile of
             Inl x \<Rightarrow> (default_profile, w)
           | Inr w' \<Rightarrow> (default_profile, w')))"

text \<open>
  \<open>load_rules\<close>: the active rules by descending priority (rules of equal priority in
  table order).
\<close>

definition load_rules :: "env \<Rightarrow> world \<Rightarrow> exn + fraud_rule list" where
  "load_rules e w =
     (if \<not> db_up e then Inl ConnectionError
      else Inr (sort_key (\<lambda>r. - priority r) (filter is_active (fraud_rules w))))"

text \<open>The rule block: any failure of the rule engine leaves the rule score at 0.\<close>

definition compute_rule_score :: "builtins \<Rightarrow> env \<Rightarrow> world \<Rightarrow> transaction \<Rightarrow> real" where
  "compute_rule_score bi e w t =
     (case load_rules e w of
        Inl x \<Rightarrow> 0
      | Inr rules \<Rightarrow>
          (case evaluate_transaction bi rules t of
             Inl x \<Rightarrow> 0
           | Inr res \<Rightarrow> rule_score res))"

text \<open>
  The ledger insert: the database must answer, the user must exist and neither the
  transaction id nor the idempotency key may be in the table yet. The row's
  \<open>created_at\<close> is the database server's clock.
\<close>

definition insert_transaction :: "env \<Rightarrow> world \<Rightarrow> transaction_row \<Rightarrow> exn + nat \<times> world" where
  "insert_transaction e w row =
     (if \<not> db_up e then Inl ConnectionError
      else if user_id (row_request row) \<notin> users w
            \<or> list_ex (\<lambda>r. row_transaction_id r = row_transaction_id row
                        \<or> idempotency_key (row_request r) = idempotency_key (row_request row))
                 (transactions w)
      then Inl IntegrityError
      else Inr (db_now e,
                w \<lparr> transactions := transactions w @ [row \<lparr> row_created_at := db_now e \<rparr>] \<rparr>))"

text \<open>The constraints \<open>ge=0.0, le=1.0\<close> on the three scores of \<open>TransactionResponse\<close>.\<close>

definition validate_response :: "transaction_response \<Rightarrow> exn + transaction_response" where
  "validate_response r =
     (if 0 \<le> risk_score r \<and> risk_score r \<le> 1
         \<and> 0 \<le> resp_rule_score r \<and> resp_rule_score r \<le> 1
         \<and> 0 \<le> ml_score r \<and> ml_score r \<le> 1
      then Inr r else Inl ValidationError)"

definition delay :: "env \<Rightarrow> world \<Rightarrow> task \<Rightarrow> exn + world" where
  "delay e w tk =
     (if \<not> broker_up e then Inl ConnectionError
      else Inr (w \<lparr> queue := queue w @ [tk] \<rparr>))"

text \<open>The two thresholds of the decision.\<close>

definition decision :: "real \<Rightarrow> bool \<times> bool" where
  "decision final_risk_score = (final_risk_score > 0.7, final_risk_score < 0.8)"

text \<open>
  The part of \<open>process_transaction\<close> after the idempotency check. The scorer is called
  outside any \<open>try\<close>, the ledger insert and the idempotency store (which is given
  \<open>response_data.dict()\<close>) inside one each, and the two task submissions outside.
\<close>

definition score_and_respond ::
  "builtins \<Rightarrow> env \<Rightarrow> world \<Rightarrow> transaction_request \<Rightarrow> (exn + transaction_response) \<times> world"
where
  "score_and_respond bi e w txn =
     (let (prof, w1) = load_profile e w (user_id txn);
          td = transaction_data txn;
          rs = compute_rule_score bi e w1 td
      in case score_transaction bi e td (Some prof) of
           Inl x \<Rightarrow> (Inl x, w1)
         | Inr ml \<Rightarrow>
            (let final = rs * 0.4 + ml * 0.6;
                 (fraud, approved) = decision final;
                 tid = uuid4 e;
                 row = \<lparr> row_transaction_id = tid, row_request = txn, row_rule_score = rs,
                         row_ml_score = ml, row_final_risk_score = final,
                         row_is_fraud = fraud, row_is_approved = approved,
                         row_created_at = 0 \<rparr>;
                 (created, w2) =
                    (case insert_transaction e w1 row of
                       Inl x \<Rightarrow> (utcnow e, w1)
                     | Inr cw \<Rightarrow> cw)
             in case validate_response
                       \<lparr> transaction_id = tid,
                         status = (if approved then ''approved'' else ''declined''),
                         is_fraud = fraud, risk_score = final, resp_rule_score = rs,
                         ml_score = ml,
                         message = Some (if approved then ''Transaction processed successfully''
                                         else ''Transaction declined due to high risk''),
                         created_at = created \<rparr> of
                  Inl x \<Rightarrow> (Inl x, w2)
                | Inr resp \<Rightarrow>
                   (let w3 = snd (store_idempotency_key bi e w2 (idempotency_key txn) txn
                                    (FromModel resp) 24)
                    in case (if fraud
                             then delay e w3 (SendFraudAlertEmail (user_id txn) tid final)
                             else Inr w3) of
                         Inl x \<Rightarrow> (Inl x, w3)
                       | Inr w4 \<Rightarrow>
                          (case delay e w4 (UpdateUserProfile (user_id txn) td) of
                             Inl x \<Rightarrow> (Inl x, w4)
                           | Inr w5 \<Rightarrow> (Inr resp, w5)))))"

text \<open>
  \<open>process_transaction\<close>: a truthy cached response is returned as it is; a miss and
  every exception of the check (the 409 among them: \<open>except Exception\<close>) go on to
  scoring.
\<close>

definition process_transaction ::
  "builtins \<Rightarrow> env \<Rightarrow> world \<Rightarrow> transaction_request \<Rightarrow> (exn + transaction_response) \<times> world"
where
  "process_transaction bi e w txn =
     (case check_idempotency_key bi e w (idempotency_key txn) txn of
        (Inr (Some r), w1) \<Rightarrow> (Inr r, w1)
      | (Inr None, w1) \<Rightarrow> score_and_respond bi e w1 txn
      | (Inl x, w1) \<Rightarrow> score_and_respond bi e w1 txn)"

section \<open>Reference notions\<close>

text \<open>
  The rules of a list that are triggered by a transaction, in the list's order.
\<close>

definition triggered_by :: "builtins \<Rightarrow> transaction \<Rightarrow> fraud_rule list \<Rightarrow> fraud_rule list" where
  "triggered_by bi t rules =
     filter (\<lambda>r. evaluate_conditions bi (rule_condition r) t = Inr True) rules"

text \<open>
  The specification's reading of a rule's action: its risk score is the number under
  \<open>risk_score\<close>, and 0.5 when the action does not specify one; the action sets the
  flag when the value under \<open>flag\<close> is \<open>true\<close> (and not when it is \<open>false\<close> or
  missing; any other value counts by its truth value). A risk score is well-typed when
  it is missing or a number.
\<close>

definition spec_risk_score :: "fraud_rule \<Rightarrow> real" where
  "spec_risk_score r =
     (case rule_actions r of
        None \<Rightarrow> 0.5
      | Some a \<Rightarrow>
          (case map_of a ''risk_score'' of
             None \<Rightarrow> 0.5
           | Some v \<Rightarrow> (case num_of v of Some x \<Rightarrow> x | None \<Rightarrow> 0)))"

definition numeric_risk_score :: "fraud_rule \<Rightarrow> bool" where
  "numeric_risk_score r =
     (case rule_actions r of
        None \<Rightarrow> True
      | Some a \<Rightarrow>
          (case map_of a ''risk_score'' of None \<Rightarrow> True | Some v \<Rightarrow> num_of v \<noteq> None))"

definition sets_flag :: "fraud_rule \<Rightarrow> bool" where
  "sets_flag r =
     (case rule_actions r of
        None \<Rightarrow> False
      | Some a \<Rightarrow>
          (case map_of a ''flag'' of
             None \<Rightarrow> False
           | Some (JBool b) \<Rightarrow> b
           | Some v \<Rightarrow> truthy v))"

text \<open>
  The aggregate the specification describes: the largest risk score among the
  triggered rules, clamped into the unit interval, and 0 when there is none.
\<close>

definition max_triggered_score :: "builtins \<Rightarrow> transaction \<Rightarrow> fraud_rule list \<Rightarrow> real" where
  "max_triggered_score bi t rules =
     (let ss = map spec_risk_score (triggered_by bi t rules)
      in if ss = [] then 0 else min 1 (max 0 (Max (set ss))))"

text \<open>
  The idempotency check of a request is a hit when it returns a cached response; the
  request is then answered without scoring.
\<close>

definition idempotency_hit :: "builtins \<Rightarrow> env \<Rightarrow> world \<Rightarrow> transaction_request \<Rightarrow> bool" where
  "idempotency_hit bi e w txn =
     (case fst (check_idempotency_key bi e w (idempotency_key txn) txn) of
        Inr (Some r) \<Rightarrow> True
      | _ \<Rightarrow> False)"

section \<open>Example data\<close>

text \<open>
  One choice of the library functions, for evaluating the model on examples:
  \<open>float\<close> restricted to strings of decimal digits, a fixed text for \<open>str\<close> of a list,
  a serialisation that lists four of the request's fields, and the identity for the
  digest.
\<close>

definition digit_val :: "char \<Rightarrow> nat option" where
  "digit_val c =
     (if (48::nat) \<le> of_char c \<and> of_char c \<le> (57::nat) then Some (of_char c - 48) else None)"

fun parse_digits :: "string \<Rightarrow> nat \<Rightarrow> nat option" where
  "parse_digits [] acc = Some acc"
| "parse_digits (c # cs) acc =
     (case digit_val c of None \<Rightarrow> None | Some d \<Rightarrow> parse_digits cs (10 * acc + d))"

definition example_builtins :: builtins where
  "example_builtins =
     \<lparr> py_float = (\<lambda>s. if s = [] then None else map_option real (parse_digits s 0)),
       py_str = (\<lambda>xs. ''[]''),
       json_dumps = (\<lambda>b. user_id b @ ''|'' @ idempotency_key b @ ''|'' @ transaction_type b
                         @ ''|'' @ (case location b of None \<Rightarrow> ''null'' | Some l \<Rightarrow> l)),
       sha256 = (\<lambda>s. s) \<rparr>"

definition example_rule :: fraud_rule where
  "example_rule =
     \<lparr> rule_id = 1, rule_name = ''high_amount'',
       rule_condition = Single \<lparr> cond_field = Some ''amount'', cond_operator = Some ''>'',
                                 cond_value = JNum 5000 \<rparr>,
       rule_actions = Some [(''risk_score'', JNum 0.8), (''flag'', JBool True)],
       is_active = True, priority = 10 \<rparr>"

text \<open>A rule on the amount, with the given name, bound and actions.\<close>

definition amount_rule :: "string \<Rightarrow> real \<Rightarrow> (string \<times> jv) list option \<Rightarrow> fraud_rule" where
  "amount_rule name bound acts =
     \<lparr> rule_id = 2, rule_name = name,
       rule_condition = Single \<lparr> cond_field = Some ''amount'', cond_operator = Some ''>'',
                                 cond_value = JNum bound \<rparr>,
       rule_actions = acts, is_active = True, priority = 1 \<rparr>"

definition example_world :: world where
  "example_world =
     \<lparr> idem_cache = Map.empty, profile_cache = Map.empty, idempotency_keys = Map.empty,
       transactions = [], users = {''user123''}, fraud_rules = [example_rule], queue = [] \<rparr>"

definition example_env :: env where
  "example_env =
     \<lparr> utcnow = 1000, db_now = 1001, hour = 12, weekday = 2, uuid4 = ''id-1'',
       redis_up = True, db_up = True, broker_up = True, model = Some (\<lambda>fs. 0) \<rparr>"

definition example_request :: transaction_request where
  "example_request =
     \<lparr> user_id = ''user123'', amount = 100, currency = ''USD'', location = Some ''NY'',
       merchant_id = Some ''m1'', card_number_hash = None, transaction_type = ''purchase'',
       idempotency_key = ''k1'', metadata = None \<rparr>"

definition example_response :: transaction_response where
  "example_response =
     \<lparr> transaction_id = ''id-1'', status = ''approved'', is_fraud = False, risk_score = 0.3,
       resp_rule_score = 0, ml_score = 0.5,
       message = Some ''Transaction processed successfully'', created_at = 1001 \<rparr>"

text \<open>
  The row that holds the example response under the key of the example request, with
  the hash of the example request and the expiry 87400.
\<close>

definition example_row :: idempotency_row where
  "example_row =
     \<lparr> request_hash = ''user123|k1|purchase|NY'', response_data = Some example_response,
       expires_at = 87400 \<rparr>"

lemmas pipeline_defs =
  process_transaction_def score_and_respond_def check_idempotency_key_def
  get_idempotency_response_def set_idempotency_response_def store_idempotency_key_def
  generate_request_hash_def load_profile_def get_user_profile_def set_user_profile_def
  compute_rule_score_def load_rules_def evaluate_transaction_def evaluate_condition_def
  coerce_def operators_def score_transaction_def extract_features_def float_of_def
  amount_deviation_def location_different_def frequency_def transaction_data_def opt_str_def
  default_profile_def insert_transaction_def validate_response_def delay_def decision_def
  get_actions_def get_risk_score_def get_flag_def REDIS_TTL_def

lemmas example_defs =
  example_builtins_def example_world_def example_env_def example_request_def
  example_response_def example_rule_def example_row_def amount_rule_def

lemmas rule_example_defs =
  triggered_by_def evaluate_condition_def coerce_def operators_def numeric_risk_score_def
  spec_risk_score_def sets_flag_def max_triggered_score_def example_rule_def amount_rule_def

section \<open>Condition evaluation\<close>

text \<open>The comparison operators raise nothing but \<open>TypeError\<close>.\<close>

lemma py_cmp_raises_TypeError:
  "py_cmp opr a b = Inl e \<Longrightarrow> e = TypeError"
  "py_cmp_list opr xs ys = Inl e \<Longrightarrow> e = TypeError"
  by (induction opr a b and opr xs ys rule: py_cmp_py_cmp_list.induct)
     (auto split: option.splits jv.splits list.splits if_splits)

lemma py_contains_raises_TypeError: "py_contains bi a b = Inl e \<Longrightarrow> e = TypeError"
  by (auto simp: py_contains_def split: jv.splits)

lemma operators_raise_TypeError:
  "operators bi opr = Some g \<Longrightarrow> g a b = Inl e \<Longrightarrow> e = TypeError"
  by (auto simp: operators_def split: if_splits jv.splits
      dest: py_cmp_raises_TypeError py_contains_raises_TypeError)

lemma operators_caught:
  assumes "operators bi opr = Some g"
  shows "\<exists>b. except_type_value (g a v) = Inr b"
proof (cases "g a v")
  case (Inl x)
  with assms have "x = TypeError" by (auto dest: operators_raise_TypeError)
  with Inl show ?thesis by auto
next
  case (Inr b)
  then show ?thesis by simp
qed

lemma evaluate_condition_returns: "\<exists>b. evaluate_condition bi c t = Inr b"
  by (auto simp: evaluate_condition_def split: option.splits intro: operators_caught)

text \<open>
  Claim C7, as amended. Evaluating a leaf predicate always returns a boolean, and the
  boolean is \<open>False\<close> when the predicate has no field or the transaction lacks it, when
  the rule's value is a number and the transaction's string does not parse as one, when
  the operator is missing or unknown, when applying the operator raises, and when \<open>in\<close>
  is given a comparison value that is not a list. The one irregular input that does not
  give \<open>False\<close> is \<open>not_in\<close> with a comparison value that is not a list: on a field that
  is present (and converts) it gives \<open>True\<close>.
\<close>

theorem evaluate_condition_degrades:
  "(\<exists>b. evaluate_condition bi c t = Inr b)
   \<and> (cond_field c = None \<longrightarrow> evaluate_condition bi c t = Inr False)
   \<and> (cond_field c = Some f \<and> t f = None \<longrightarrow> evaluate_condition bi c t = Inr False)
   \<and> (cond_field c = Some f \<and> t f = Some (JStr s) \<and> num_of (cond_value c) \<noteq> None
        \<and> py_float bi s = None \<longrightarrow> evaluate_condition bi c t = Inr False)
   \<and> (cond_operator c = None \<longrightarrow> evaluate_condition bi c t = Inr False)
   \<and> (cond_operator c = Some opr \<and> operators bi opr = None
        \<longrightarrow> evaluate_condition bi c t = Inr False)
   \<and> (cond_field c = Some f \<and> t f = Some tv \<and> coerce bi (cond_value c) tv = Some a
        \<and> cond_operator c = Some opr \<and> operators bi opr = Some g \<and> g a (cond_value c) = Inl x
        \<longrightarrow> evaluate_condition bi c t = Inr False)
   \<and> (cond_operator c = Some ''in'' \<and> \<not> is_list (cond_value c)
        \<longrightarrow> evaluate_condition bi c t = Inr False)
   \<and> (cond_field c = Some f \<and> t f = Some tv \<and> coerce bi (cond_value c) tv \<noteq> None
        \<and> cond_operator c = Some ''not_in'' \<and> \<not> is_list (cond_value c)
        \<longrightarrow> evaluate_condition bi c t = Inr True)"
proof (intro conjI impI)
  show "\<exists>b. evaluate_condition bi c t = Inr b" by (rule evaluate_condition_returns)
next
  assume "cond_field c = None"
  then show "evaluate_condition bi c t = Inr False" by (simp add: evaluate_condition_def)
next
  assume "cond_field c = Some f \<and> t f = None"
  then show "evaluate_condition bi c t = Inr False" by (simp add: evaluate_condition_def)
next
  assume "cond_field c = Some f \<and> t f = Some (JStr s) \<and> num_of (cond_value c) \<noteq> None
        \<and> py_float bi s = None"
  then show "evaluate_condition bi c t = Inr False"
    by (auto simp: evaluate_condition_def coerce_def)
next
  assume "cond_operator c = None"
  then show "evaluate_condition bi c t = Inr False"
    by (simp add: evaluate_condition_def split: option.splits)
next
  assume "cond_operator c = Some opr \<and> operators bi opr = None"
  then show "evaluate_condition bi c t = Inr False"
    by (simp add: evaluate_condition_def split: option.splits)
next
  assume "cond_field c = Some f \<and> t f = Some tv \<and> coerce bi (cond_value c) tv = Some a
        \<and> cond_operator c = Some opr \<and> operators bi opr = Some g \<and> g a (cond_value c) = Inl x"
  then show "evaluate_condition bi c t = Inr False"
    by (auto simp: evaluate_condition_def dest: operators_raise_TypeError)
next
  assume "cond_operator c = Some ''in'' \<and> \<not> is_list (cond_value c)"
  then show "evaluate_condition bi c t = Inr False"
    by (cases "cond_value c")
       (simp_all add: evaluate_condition_def operators_def split: option.splits)
next
  assume "cond_field c = Some f \<and> t f = Some tv \<and> coerce bi (cond_value c) tv \<noteq> None
        \<and> cond_operator c = Some ''not_in'' \<and> \<not> is_list (cond_value c)"
  then show "evaluate_condition bi c t = Inr True"
    by (cases "cond_value c")
       (auto simp add: evaluate_condition_def operators_def split: option.splits)
qed

text \<open>
  The theorem at five predicates: a field the transaction lacks, a string that is not a
  number against a numeric value, a number ordered against a string, \<open>in\<close> and
  \<open>not_in\<close> with the number 5 in place of a list.
\<close>

theorem evaluate_condition_degrades_witness:
  "evaluate_condition example_builtins
     \<lparr> cond_field = Some ''currency'', cond_operator = Some ''=='', cond_value = JStr ''USD'' \<rparr>
     [''amount'' \<mapsto> JNum 100] = Inr False
   \<and> evaluate_condition example_builtins
       \<lparr> cond_field = Some ''location'', cond_operator = Some ''>'', cond_value = JNum 5 \<rparr>
       [''location'' \<mapsto> JStr ''abc''] = Inr False
   \<and> evaluate_condition example_builtins
       \<lparr> cond_field = Some ''amount'', cond_operator = Some ''>'', cond_value = JStr ''x'' \<rparr>
       [''amount'' \<mapsto> JNum 100] = Inr False
   \<and> evaluate_condition example_builtins
       \<lparr> cond_field = Some ''amount'', cond_operator = Some ''in'', cond_value = JNum 5 \<rparr>
       [''amount'' \<mapsto> JNum 100] = Inr False
   \<and> evaluate_condition example_builtins
       \<lparr> cond_field = Some ''amount'', cond_operator = Some ''not_in'', cond_value = JNum 5 \<rparr>
       [''amount'' \<mapsto> JNum 100] = Inr True"
  using
    evaluate_condition_degrades [of example_builtins
      "\<lparr> cond_field = Some ''currency'', cond_operator = Some ''=='', cond_value = JStr ''USD'' \<rparr>"
      "[''amount'' \<mapsto> JNum 100]" "''currency''"]
    evaluate_condition_degrades [of example_builtins
      "\<lparr> cond_field = Some ''location'', cond_operator = Some ''>'', cond_value = JNum 5 \<rparr>"
      "[''location'' \<mapsto> JStr ''abc'']" "''location''" "''abc''"]
    evaluate_condition_degrades [of example_builtins
      "\<lparr> cond_field = Some ''amount'', cond_operator = Some ''>'', cond_value = JStr ''x'' \<rparr>"
      "[''amount'' \<mapsto> JNum 100]" "''amount''" _ "''>''" "JNum 100" "JNum 100"
      "\<lambda>a b. py_cmp Gt a b" TypeError]
    evaluate_condition_degrades [of example_builtins
      "\<lparr> cond_field = Some ''amount'', cond_operator = Some ''in'', cond_value = JNum 5 \<rparr>"
      "[''amount'' \<mapsto> JNum 100]"]
    evaluate_condition_degrades [of example_builtins
      "\<lparr> cond_field = Some ''amount'', cond_operator = Some ''not_in'', cond_value = JNum 5 \<rparr>"
      "[''amount'' \<mapsto> JNum 100]" "''amount''" _ _ "JNum 100"]
  by (simp add: coerce_def operators_def example_builtins_def digit_val_def)

text \<open>
  Claim C7 as stated fails: \<open>not_in\<close> with the comparison value 5, which is not a list,
  evaluates to \<open>True\<close>.
\<close>

theorem not_in_non_list_counterexample:
  "evaluate_condition example_builtins
     \<lparr> cond_field = Some ''amount'', cond_operator = Some ''not_in'', cond_value = JNum 5 \<rparr>
     [''amount'' \<mapsto> JNum 100] = Inr True"
  by (simp add: evaluate_condition_def coerce_def operators_def)

section \<open>Rule aggregation\<close>

text \<open>
  Evaluating a rule's condition always returns a boolean. The loop over the rules
  returns when every triggered rule's risk score is missing or a number, and raises
  \<open>TypeError\<close> at the first triggered rule whose risk score is anything else.
\<close>

lemma all_conditions_returns: "\<exists>b. all_conditions bi cs t = Inr b"
proof (induction cs)
  case Nil
  show ?case by auto
next
  case (Cons c cs)
  obtain b where "evaluate_condition bi c t = Inr b"
    using evaluate_condition_returns by blast
  with Cons show ?case by auto
qed

lemma any_condition_returns: "\<exists>b. any_condition bi cs t = Inr b"
proof (induction cs)
  case Nil
  show ?case by auto
next
  case (Cons c cs)
  obtain b where "evaluate_condition bi c t = Inr b"
    using evaluate_condition_returns by blast
  with Cons show ?case by auto
qed

lemma evaluate_conditions_returns: "\<exists>b. evaluate_conditions bi c t = Inr b"
  by (cases c) (auto simp: evaluate_condition_returns all_conditions_returns
      any_condition_returns)

lemma foldl_max_Max:
  "foldl max (a::real) ss = (if ss = [] then a else max a (Max (set ss)))"
proof (induction ss arbitrary: a)
  case Nil
  show ?case by simp
next
  case (Cons s ss)
  show ?case
  proof (cases "ss = []")
    case True
    then show ?thesis by simp
  next
    case False
    then have "Max (set (s # ss)) = max s (Max (set ss))" by simp
    with False Cons[of "max a s"] show ?thesis by (simp add: max.assoc)
  qed
qed

lemma get_risk_score_numeric:
  "numeric_risk_score r \<Longrightarrow> num_of (get_risk_score r) = Some (spec_risk_score r)"
  by (auto simp: numeric_risk_score_def get_risk_score_def get_actions_def spec_risk_score_def
      split: option.splits)

lemma get_risk_score_not_numeric:
  "\<not> numeric_risk_score r \<Longrightarrow> num_of (get_risk_score r) = None"
  by (auto simp: numeric_risk_score_def get_risk_score_def get_actions_def
      split: option.splits)

lemma truthy_get_flag: "truthy (get_flag r) = sets_flag r"
  by (auto simp: get_flag_def get_actions_def sets_flag_def split: option.splits jv.splits)

lemma py_cmp_Gt_number:
  "num_of v = Some x \<Longrightarrow> py_cmp Gt v (JNum a) = Inr (x > a)"
  by (cases v) auto

lemma py_cmp_Gt_not_number:
  "num_of v = None \<Longrightarrow> py_cmp Gt v (JNum a) = Inl TypeError"
  by (cases v) auto

lemma rules_loop_result:
  "list_all numeric_risk_score (triggered_by bi t rs) \<Longrightarrow>
   \<exists>res. rules_loop bi t rs acc = Inr res
     \<and> rule_score res = foldl max (rule_score acc) (map spec_risk_score (triggered_by bi t rs))
     \<and> flags res = flags acc @ map rule_name (filter sets_flag (triggered_by bi t rs))
     \<and> map tr_rule_name (triggered_rules res)
         = map tr_rule_name (triggered_rules acc) @ map rule_name (triggered_by bi t rs)"
proof (induction rs arbitrary: acc)
  case Nil
  show ?case by (simp add: triggered_by_def)
next
  case (Cons r rs)
  obtain b where b: "evaluate_conditions bi (rule_condition r) t = Inr b"
    using evaluate_conditions_returns by blast
  show ?case
  proof (cases b)
    case False
    with b have "triggered_by bi t (r # rs) = triggered_by bi t rs"
      by (simp add: triggered_by_def)
    with Cons.prems Cons.IH[of acc] b False show ?thesis by simp
  next
    case True
    with b have tb: "triggered_by bi t (r # rs) = r # triggered_by bi t rs"
      by (simp add: triggered_by_def)
    with Cons.prems have n: "numeric_risk_score r"
      and ns: "list_all numeric_risk_score (triggered_by bi t rs)" by simp_all
    let ?x = "spec_risk_score r"
    have x: "num_of (get_risk_score r) = Some ?x" using n by (rule get_risk_score_numeric)
    then have c: "py_cmp Gt (get_risk_score r) (JNum (rule_score acc)) = Inr (?x > rule_score acc)"
      by (rule py_cmp_Gt_number)
    let ?acc = "\<lparr> rule_score = (if ?x > rule_score acc then ?x else rule_score acc),
                triggered_rules = triggered_rules acc @
                  [\<lparr> tr_rule_name = rule_name r, tr_rule_id = rule_id r,
                     tr_risk_score = get_risk_score r \<rparr>],
                flags = (if sets_flag r then flags acc @ [rule_name r] else flags acc) \<rparr>"
    have step: "rules_loop bi t (r # rs) acc = rules_loop bi t rs ?acc"
      using b True c x by (simp add: truthy_get_flag)
    have m: "rule_score ?acc = max (rule_score acc) ?x" by (simp add: max_def)
    from Cons.IH[OF ns, of ?acc] obtain res where
      res: "rules_loop bi t rs ?acc = Inr res"
        "rule_score res = foldl max (rule_score ?acc) (map spec_risk_score (triggered_by bi t rs))"
        "flags res = flags ?acc @ map rule_name (filter sets_flag (triggered_by bi t rs))"
        "map tr_rule_name (triggered_rules res)
         = map tr_rule_name (triggered_rules ?acc) @ map rule_name (triggered_by bi t rs)"
      by blast
    have "rules_loop bi t (r # rs) acc = Inr res" using step res(1) by simp
    moreover have "rule_score res
        = foldl max (rule_score acc) (map spec_risk_score (triggered_by bi t (r # rs)))"
      using res(2) m tb by simp
    moreover have "flags res
        = flags acc @ map rule_name (filter sets_flag (triggered_by bi t (r # rs)))"
      using res(3) tb by simp
    moreover have "map tr_rule_name (triggered_rules res)
        = map tr_rule_name (triggered_rules acc) @ map rule_name (triggered_by bi t (r # rs))"
      using res(4) tb by simp
    ultimately show ?thesis by blast
  qed
qed

lemma rules_loop_raises:
  "\<not> list_all numeric_risk_score (triggered_by bi t rs) \<Longrightarrow>
     rules_loop bi t rs acc = Inl TypeError"
proof (induction rs arbitrary: acc)
  case Nil
  then show ?case by (simp add: triggered_by_def)
next
  case (Cons r rs)
  obtain b where b: "evaluate_conditions bi (rule_condition r) t = Inr b"
    using evaluate_conditions_returns by blast
  show ?case
  proof (cases b)
    case False
    with b have "triggered_by bi t (r # rs) = triggered_by bi t rs"
      by (simp add: triggered_by_def)
    with Cons.prems Cons.IH[of acc] b False show ?thesis by simp
  next
    case True
    with b have tb: "triggered_by bi t (r # rs) = r # triggered_by bi t rs"
      by (simp add: triggered_by_def)
    show ?thesis
    proof (cases "numeric_risk_score r")
      case False
      then have "py_cmp Gt (get_risk_score r) (JNum (rule_score acc)) = Inl TypeError"
        by (simp add: get_risk_score_not_numeric py_cmp_Gt_not_number)
      with b True show ?thesis by simp
    next
      case n: True
      with Cons.prems tb have ns: "\<not> list_all numeric_risk_score (triggered_by bi t rs)"
        by simp
      from n have "num_of (get_risk_score r) = Some (spec_risk_score r)"
        by (rule get_risk_score_numeric)
      then have "py_cmp Gt (get_risk_score r) (JNum (rule_score acc))
          = Inr (spec_risk_score r > rule_score acc)"
        by (rule py_cmp_Gt_number)
      with b True Cons.IH[OF ns] show ?thesis by simp
    qed
  qed
qed

text \<open>
  Claim C6, as amended. When every triggered rule's risk score is a number or
  unspecified, \<open>evaluate_transaction\<close> returns; its rule score is the largest risk
  score among the triggered rules (0.5 for a rule whose action gives none), clamped
  into the unit interval, and 0 when no rule is triggered; its flags are the names of
  the triggered rules whose action sets the flag to true, whatever their score, and of
  no rule whose flag is false or missing; its triggered rules are the triggered rules,
  in order. When some triggered rule's risk score is null or not a number,
  \<open>evaluate_transaction\<close> raises \<open>TypeError\<close>, and the orchestrator's rule score is
  0.
\<close>

theorem evaluate_transaction_max:
  "(list_all numeric_risk_score (triggered_by bi t rules) \<longrightarrow>
      (\<exists>res. evaluate_transaction bi rules t = Inr res
         \<and> rule_score res = max_triggered_score bi t rules
         \<and> (if triggered_by bi t rules = [] then rule_score res = 0
             else rule_score res
                  = min 1 (max 0 (Max (spec_risk_score ` set (triggered_by bi t rules)))))
         \<and> flags res = map rule_name (filter sets_flag (triggered_by bi t rules))
         \<and> map tr_rule_name (triggered_rules res) = map rule_name (triggered_by bi t rules)))
   \<and> (\<not> list_all numeric_risk_score (triggered_by bi t rules) \<longrightarrow>
        evaluate_transaction bi rules t = Inl TypeError
      \<and> (load_rules e w = Inr rules \<longrightarrow> compute_rule_score bi e w t = 0))"
proof (intro conjI impI)
  assume n: "list_all numeric_risk_score (triggered_by bi t rules)"
  obtain acc where
    acc: "rules_loop bi t rules \<lparr> rule_score = 0, triggered_rules = [], flags = [] \<rparr> = Inr acc"
      "rule_score acc = foldl max 0 (map spec_risk_score (triggered_by bi t rules))"
      "flags acc = map rule_name (filter sets_flag (triggered_by bi t rules))"
      "map tr_rule_name (triggered_rules acc) = map rule_name (triggered_by bi t rules)"
    using rules_loop_result[OF n,
        of "\<lparr> rule_score = 0, triggered_rules = [], flags = [] \<rparr>"]
    by auto
  have s: "min (rule_score acc) 1 = max_triggered_score bi t rules"
    by (simp add: acc(2) foldl_max_Max max_triggered_score_def Let_def min.commute)
  have "evaluate_transaction bi rules t = Inr (acc \<lparr> rule_score := min (rule_score acc) 1 \<rparr>)"
    by (simp add: evaluate_transaction_def acc(1))
  with s acc(3,4) show "\<exists>res. evaluate_transaction bi rules t = Inr res
         \<and> rule_score res = max_triggered_score bi t rules
         \<and> (if triggered_by bi t rules = [] then rule_score res = 0
             else rule_score res
                  = min 1 (max 0 (Max (spec_risk_score ` set (triggered_by bi t rules)))))
         \<and> flags res = map rule_name (filter sets_flag (triggered_by bi t rules))
         \<and> map tr_rule_name (triggered_rules res) = map rule_name (triggered_by bi t rules)"
    by (auto simp: max_triggered_score_def Let_def)
next
  assume "\<not> list_all numeric_risk_score (triggered_by bi t rules)"
  then show r: "evaluate_transaction bi rules t = Inl TypeError"
    by (simp add: evaluate_transaction_def rules_loop_raises)
  assume "load_rules e w = Inr rules"
  with r show "compute_rule_score bi e w t = 0"
    by (simp add: compute_rule_score_def)
qed

text \<open>
  The theorem on the amount 100: a single triggered rule without a risk score and with
  the flag false (score 0.5, no flag); three triggered rules, the first without a risk
  score and flagged, the second with 0.9 and the flag false, the third without actions
  (score 0.9, not 1.9, one flag); risk scores 5 and -1 (score 1); no triggered rule
  (score 0); and a triggered rule whose risk score is a text (\<open>TypeError\<close>, the
  orchestrator's rule score 0).
\<close>

theorem evaluate_transaction_max_witness:
  "(\<exists>res. evaluate_transaction example_builtins
       [amount_rule ''quiet'' 50 (Some [(''flag'', JBool False)]), example_rule]
       [''amount'' \<mapsto> JNum 100] = Inr res
     \<and> rule_score res = 0.5 \<and> flags res = []
     \<and> map tr_rule_name (triggered_rules res) = [''quiet''])
   \<and> (\<exists>res. evaluate_transaction example_builtins
       [amount_rule ''unscored'' 50 (Some [(''flag'', JBool True)]),
        amount_rule ''unflagged'' 60 (Some [(''risk_score'', JNum 0.9), (''flag'', JBool False)]),
        amount_rule ''no_actions'' 70 None,
        example_rule]
       [''amount'' \<mapsto> JNum 100] = Inr res
     \<and> rule_score res = 0.9 \<and> flags res = [''unscored'']
     \<and> map tr_rule_name (triggered_rules res) = [''unscored'', ''unflagged'', ''no_actions''])
   \<and> (\<exists>res. evaluate_transaction example_builtins
       [amount_rule ''excessive'' 50 (Some [(''risk_score'', JNum 5)]),
        amount_rule ''negative'' 50 (Some [(''risk_score'', JNum (- 1))])]
       [''amount'' \<mapsto> JNum 100] = Inr res
     \<and> rule_score res = 1)
   \<and> (\<exists>res. evaluate_transaction example_builtins [example_rule]
       [''amount'' \<mapsto> JNum 100] = Inr res
     \<and> rule_score res = 0 \<and> flags res = [])
   \<and> evaluate_transaction example_builtins
       [example_rule, amount_rule ''text_score'' 50 (Some [(''risk_score'', JStr ''high'')])]
       [''amount'' \<mapsto> JNum 100] = Inl TypeError
   \<and> compute_rule_score example_builtins example_env
       (example_world \<lparr> fraud_rules :=
          [example_rule, amount_rule ''text_score'' 50 (Some [(''risk_score'', JStr ''high'')])] \<rparr>)
       [''amount'' \<mapsto> JNum 100] = 0"
  using
    evaluate_transaction_max [of example_builtins "[''amount'' \<mapsto> JNum 100]"
       "[amount_rule ''quiet'' 50 (Some [(''flag'', JBool False)]), example_rule]"]
    evaluate_transaction_max [of example_builtins "[''amount'' \<mapsto> JNum 100]"
       "[amount_rule ''unscored'' 50 (Some [(''flag'', JBool True)]),
        amount_rule ''unflagged'' 60 (Some [(''risk_score'', JNum 0.9), (''flag'', JBool False)]),
        amount_rule ''no_actions'' 70 None,
        example_rule]"]
    evaluate_transaction_max [of example_builtins "[''amount'' \<mapsto> JNum 100]"
       "[amount_rule ''excessive'' 50 (Some [(''risk_score'', JNum 5)]),
        amount_rule ''negative'' 50 (Some [(''risk_score'', JNum (- 1))])]"]
    evaluate_transaction_max [of example_builtins "[''amount'' \<mapsto> JNum 100]"
       "[example_rule]"]
    evaluate_transaction_max [of example_builtins "[''amount'' \<mapsto> JNum 100]"
       "[example_rule, amount_rule ''text_score'' 50 (Some [(''risk_score'', JStr ''high'')])]"
       example_env
       "example_world \<lparr> fraud_rules :=
          [example_rule, amount_rule ''text_score'' 50 (Some [(''risk_score'', JStr ''high'')])] \<rparr>"]
  by (auto simp add: rule_example_defs load_rules_def example_env_def example_world_def)

text \<open>
  Claim C6 as stated fails: for a rule list whose triggered rule has the risk score
  null, the rule engine raises \<open>TypeError\<close> and gives no score.
\<close>

theorem null_risk_score_counterexample:
  "evaluate_transaction example_builtins
     [amount_rule ''broken'' 50 (Some [(''risk_score'', JNone)])]
     [''amount'' \<mapsto> JNum 100] = Inl TypeError"
  by (simp add: evaluate_transaction_def evaluate_condition_def coerce_def operators_def
      get_risk_score_def get_actions_def amount_rule_def)

section \<open>The attribute set given to the rule engine\<close>

text \<open>
  Claim C10. The dictionary handed to the rule engine has exactly the keys \<open>amount\<close>,
  \<open>location\<close>, \<open>user_id\<close>, \<open>merchant_id\<close> and \<open>transaction_type\<close>; a leaf predicate
  on \<open>currency\<close>, \<open>card_number_hash\<close>, \<open>idempotency_key\<close> or \<open>metadata\<close> is false
  on it, and a rule whose condition is such a predicate is never among the triggered
  rules.
\<close>

theorem unlisted_field_never_triggers:
  "dom (transaction_data txn)
     = {''amount'', ''location'', ''user_id'', ''merchant_id'', ''transaction_type''}
   \<and> (f \<in> {''currency'', ''card_number_hash'', ''idempotency_key'', ''metadata''}
        \<and> cond_field c = Some f
      \<longrightarrow> evaluate_condition bi c (transaction_data txn) = Inr False
        \<and> evaluate_conditions bi (Single c) (transaction_data txn) = Inr False
        \<and> (rule_condition r = Single c
             \<longrightarrow> r \<notin> set (triggered_by bi (transaction_data txn) rules)))"
proof (intro conjI impI)
  show "dom (transaction_data txn)
     = {''amount'', ''location'', ''user_id'', ''merchant_id'', ''transaction_type''}"
    by (auto simp: transaction_data_def)
next
  assume a: "f \<in> {''currency'', ''card_number_hash'', ''idempotency_key'', ''metadata''}
        \<and> cond_field c = Some f"
  then have "transaction_data txn f = None"
    by (auto simp: transaction_data_def)
  with a show e: "evaluate_condition bi c (transaction_data txn) = Inr False"
    by (simp add: evaluate_condition_def)
  then show "evaluate_conditions bi (Single c) (transaction_data txn) = Inr False"
    by simp
  assume "rule_condition r = Single c"
  with e show "r \<notin> set (triggered_by bi (transaction_data txn) rules)"
    by (simp add: triggered_by_def)
qed

text \<open>The theorem at the example request and a rule on \<open>currency\<close>.\<close>

theorem unlisted_field_never_triggers_witness:
  "dom (transaction_data example_request)
     = {''amount'', ''location'', ''user_id'', ''merchant_id'', ''transaction_type''}
   \<and> evaluate_condition example_builtins
        \<lparr> cond_field = Some ''currency'', cond_operator = Some ''=='', cond_value = JStr ''USD'' \<rparr>
        (transaction_data example_request) = Inr False
   \<and> example_rule \<lparr> rule_condition := Single
        \<lparr> cond_field = Some ''currency'', cond_operator = Some ''=='', cond_value = JStr ''USD'' \<rparr> \<rparr>
      \<notin> set (triggered_by example_builtins (transaction_data example_request)
          [example_rule \<lparr> rule_condition := Single
        \<lparr> cond_field = Some ''currency'', cond_operator = Some ''=='', cond_value = JStr ''USD'' \<rparr> \<rparr>])"
  using unlisted_field_never_triggers [of example_request "''currency''"
      "\<lparr> cond_field = Some ''currency'', cond_operator = Some ''=='', cond_value = JStr ''USD'' \<rparr>"
      example_builtins
      "example_rule \<lparr> rule_condition := Single
        \<lparr> cond_field = Some ''currency'', cond_operator = Some ''=='', cond_value = JStr ''USD'' \<rparr> \<rparr>"
      "[example_rule \<lparr> rule_condition := Single
        \<lparr> cond_field = Some ''currency'', cond_operator = Some ''=='', cond_value = JStr ''USD'' \<rparr> \<rparr>]"]
  by simp

section \<open>Scoring and decision\<close>

lemma sigmoid_bounds: "0 < 1 / (1 + exp (d::real))" "1 / (1 + exp (d::real)) < 1"
proof -
  have "0 < exp d" by simp
  then show "0 < 1 / (1 + exp d)" by (simp add: add_pos_pos)
  from \<open>0 < exp d\<close> show "1 / (1 + exp d) < 1" by (simp add: add_pos_pos)
qed

lemma py_cmp_Gt_result:
  "py_cmp Gt v (JNum a) = Inr gt \<Longrightarrow> \<exists>x. num_of v = Some x \<and> gt = (x > a)"
  by (cases v) auto

lemma rules_loop_nonneg:
  "rules_loop bi t rs acc = Inr res \<Longrightarrow> 0 \<le> rule_score acc \<Longrightarrow> 0 \<le> rule_score res"
proof (induction rs arbitrary: acc)
  case Nil
  then show ?case by simp
next
  case (Cons r rs)
  show ?case
  proof (cases "evaluate_conditions bi (rule_condition r) t")
    case (Inl x)
    with Cons.prems show ?thesis by simp
  next
    case (Inr b)
    show ?thesis
    proof (cases b)
      case False
      with Inr Cons show ?thesis by simp
    next
      case True
      show ?thesis
      proof (cases "py_cmp Gt (get_risk_score r) (JNum (rule_score acc))")
        case (Inl x)
        with Inr True Cons.prems show ?thesis by simp
      next
        case gt: (Inr gt)
        then obtain x where x: "num_of (get_risk_score r) = Some x" "gt = (x > rule_score acc)"
          using py_cmp_Gt_result by blast
        let ?acc = "\<lparr> rule_score = (if gt then x else rule_score acc),
                triggered_rules = triggered_rules acc @
                  [\<lparr> tr_rule_name = rule_name r, tr_rule_id = rule_id r,
                     tr_risk_score = get_risk_score r \<rparr>],
                flags = (if truthy (get_flag r) then flags acc @ [rule_name r]
                         else flags acc) \<rparr>"
        have "rules_loop bi t rs ?acc = Inr res"
          using Cons.prems(1) Inr True gt x(1) by (auto split: if_splits)
        moreover have "0 \<le> rule_score ?acc" using x(2) Cons.prems(2) by simp
        ultimately show ?thesis by (rule Cons.IH)
      qed
    qed
  qed
qed

lemma evaluate_transaction_range:
  "evaluate_transaction bi rules t = Inr res \<Longrightarrow> 0 \<le> rule_score res \<and> rule_score res \<le> 1"
  by (auto simp: evaluate_transaction_def split: sum.splits dest: rules_loop_nonneg)

lemma compute_rule_score_range:
  "0 \<le> compute_rule_score bi e w t \<and> compute_rule_score bi e w t \<le> 1"
  by (auto simp: compute_rule_score_def split: sum.splits dest: evaluate_transaction_range)

lemma extract_features_transaction_data:
  "\<exists>fs. extract_features bi e (transaction_data txn) (Some p) = Inr fs"
  by (simp add: extract_features_def transaction_data_def float_of_def amount_deviation_def
      Let_def split: option.splits)

lemma score_transaction_transaction_data:
  "score_transaction bi e (transaction_data txn) (Some p) = Inr ml \<Longrightarrow> 0 < ml \<and> ml < 1"
  "model e = None \<Longrightarrow> score_transaction bi e (transaction_data txn) (Some p) = Inl ModelError"
  "model e = Some f \<Longrightarrow> \<exists>ml. score_transaction bi e (transaction_data txn) (Some p) = Inr ml"
  using extract_features_transaction_data[of bi e txn p]
  by (auto simp: score_transaction_def add_pos_pos split: option.splits sum.splits)

lemma process_transaction_miss:
  "\<not> idempotency_hit bi e w txn \<Longrightarrow>
     process_transaction bi e w txn =
       score_and_respond bi e (snd (check_idempotency_key bi e w (idempotency_key txn) txn)) txn"
  by (auto simp: idempotency_hit_def process_transaction_def split: prod.splits sum.splits option.splits)


lemma score_and_respond_Inr:
  assumes "fst (score_and_respond bi e w txn) = Inr r"
  shows "\<exists>ml w1. score_transaction bi e (transaction_data txn) (Some (fst (load_profile e w (user_id txn)))) = Inr ml
     \<and> w1 = snd (load_profile e w (user_id txn))
     \<and> risk_score r = compute_rule_score bi e w1 (transaction_data txn) * 0.4 + ml * 0.6
     \<and> resp_rule_score r = compute_rule_score bi e w1 (transaction_data txn)
     \<and> ml_score r = ml
     \<and> transaction_id r = uuid4 e
     \<and> is_fraud r = fst (decision (risk_score r))
     \<and> status r = (if snd (decision (risk_score r)) then ''approved'' else ''declined'')"
  using assms
  by (auto simp: score_and_respond_def Let_def validate_response_def
      split: prod.splits sum.splits if_splits)

text \<open>
  Claim C3, violated by the code. When the anomaly model cannot be loaded and the
  request is not answered from the idempotency store, \<open>process_transaction\<close> ends
  with the scorer's exception: no score is substituted and no decision is produced.
\<close>

theorem scorer_failure_propagates:
  assumes "model e = None" and "\<not> idempotency_hit bi e w txn"
  shows "fst (process_transaction bi e w txn) = Inl ModelError"
  using assms
  by (simp add: process_transaction_miss score_and_respond_def
      score_transaction_transaction_data(2) split: prod.splits)

text \<open>The theorem at the example request with no model.\<close>

theorem scorer_failure_propagates_witness:
  "fst (process_transaction example_builtins (example_env \<lparr> model := None \<rparr>) example_world
          example_request) = Inl ModelError"
  using scorer_failure_propagates [of "example_env \<lparr> model := None \<rparr>" example_builtins
      example_world example_request]
  by (simp add: idempotency_hit_def check_idempotency_key_def get_idempotency_response_def
      example_defs)

text \<open>
  Claim C4. For a request that is scored (the idempotency check is not a hit), the
  response's final score is 0.4 times its rule score plus 0.6 times its model score,
  and the three scores lie between 0 and 1; the range constraints of the response
  schema therefore never reject a computed response.
\<close>

theorem final_score_weighted_sum:
  assumes "\<not> idempotency_hit bi e w txn"
  shows "fst (process_transaction bi e w txn) \<noteq> Inl ValidationError
     \<and> (fst (process_transaction bi e w txn) = Inr r \<longrightarrow>
          risk_score r = resp_rule_score r * 0.4 + ml_score r * 0.6
        \<and> 0 \<le> risk_score r \<and> risk_score r \<le> 1
        \<and> 0 \<le> resp_rule_score r \<and> resp_rule_score r \<le> 1
        \<and> 0 \<le> ml_score r \<and> ml_score r \<le> 1)"
proof (intro conjI impI)
  let ?w = "snd (check_idempotency_key bi e w (idempotency_key txn) txn)"
  let ?p = "load_profile e ?w (user_id txn)"
  have p: "process_transaction bi e w txn = score_and_respond bi e ?w txn"
    using assms by (rule process_transaction_miss)
  have rs: "0 \<le> compute_rule_score bi e (snd ?p) (transaction_data txn)"
      "compute_rule_score bi e (snd ?p) (transaction_data txn) \<le> 1"
    using compute_rule_score_range by blast+
  show "fst (process_transaction bi e w txn) \<noteq> Inl ValidationError"
  proof (cases "score_transaction bi e (transaction_data txn) (Some (fst ?p))")
    case (Inl x)
    then have "x \<noteq> ValidationError"
      using extract_features_transaction_data[of bi e txn "fst ?p"]
      by (auto simp: score_transaction_def split: option.splits sum.splits)
    with Inl show ?thesis
      by (auto simp: p score_and_respond_def split: prod.splits)
  next
    case (Inr ml)
    then have "0 < ml \<and> ml < 1" by (rule score_transaction_transaction_data(1))
    with Inr rs show ?thesis
      by (auto simp: p score_and_respond_def Let_def validate_response_def delay_def
          split: prod.splits sum.splits if_splits)
  qed
  assume "fst (process_transaction bi e w txn) = Inr r"
  then have "fst (score_and_respond bi e ?w txn) = Inr r" by (simp add: p)
  from score_and_respond_Inr[OF this] obtain ml where
    ml: "score_transaction bi e (transaction_data txn) (Some (fst ?p)) = Inr ml"
    and r: "risk_score r = compute_rule_score bi e (snd ?p) (transaction_data txn) * 0.4 + ml * 0.6"
      "resp_rule_score r = compute_rule_score bi e (snd ?p) (transaction_data txn)"
      "ml_score r = ml"
    by blast
  from ml have b: "0 < ml \<and> ml < 1" by (rule score_transaction_transaction_data(1))
  show "risk_score r = resp_rule_score r * 0.4 + ml_score r * 0.6" using r by simp
  show "0 \<le> risk_score r" using r rs b by simp
  show "risk_score r \<le> 1" using r rs b by simp
  show "0 \<le> resp_rule_score r" using r rs by simp
  show "resp_rule_score r \<le> 1" using r rs by simp
  show "0 \<le> ml_score r" using r b by simp
  show "ml_score r \<le> 1" using r b by simp
qed

text \<open>
  The theorem at the example request with the amount 6000, which triggers the example
  rule: rule score 0.8, model score 0.5, final score 0.62.
\<close>

theorem final_score_weighted_sum_witness:
  "\<not> idempotency_hit example_builtins example_env example_world
        (example_request \<lparr> amount := 6000 \<rparr>)
   \<and> fst (process_transaction example_builtins example_env example_world
            (example_request \<lparr> amount := 6000 \<rparr>))
       = Inr (example_response \<lparr> risk_score := 0.62, resp_rule_score := 0.8 \<rparr>)
   \<and> risk_score (example_response \<lparr> risk_score := 0.62, resp_rule_score := 0.8 \<rparr>)
       = resp_rule_score (example_response \<lparr> risk_score := 0.62, resp_rule_score := 0.8 \<rparr>) * 0.4
         + ml_score (example_response \<lparr> risk_score := 0.62, resp_rule_score := 0.8 \<rparr>) * 0.6"
  using final_score_weighted_sum [of example_builtins example_env example_world
      "example_request \<lparr> amount := 6000 \<rparr>"
      "example_response \<lparr> risk_score := 0.62, resp_rule_score := 0.8 \<rparr>"]
  by (simp add: idempotency_hit_def pipeline_defs example_defs Let_def)

text \<open>
  Claim C5. For a scored request, the fraud flag is set exactly when the final score
  exceeds 0.7 and the status is \<open>approved\<close> exactly when it is below 0.8 (and
  \<open>declined\<close> otherwise); the two are thresholded independently, so 0.75 gives
  fraud and approved, 0.9 fraud and declined, 0.5 no fraud and approved.
\<close>

theorem decision_thresholds:
  assumes "\<not> idempotency_hit bi e w txn"
    and "fst (process_transaction bi e w txn) = Inr r"
  shows "is_fraud r = (risk_score r > 0.7)
     \<and> (status r = ''approved'') = (risk_score r < 0.8)
     \<and> (status r = ''declined'') = (\<not> risk_score r < 0.8)
     \<and> decision 0.75 = (True, True)
     \<and> decision 0.9 = (True, False)
     \<and> decision 0.5 = (False, True)"
proof -
  let ?w = "snd (check_idempotency_key bi e w (idempotency_key txn) txn)"
  have "fst (score_and_respond bi e ?w txn) = Inr r"
    using assms by (simp add: process_transaction_miss)
  from score_and_respond_Inr[OF this]
  have "is_fraud r = fst (decision (risk_score r))"
    and "status r = (if snd (decision (risk_score r)) then ''approved'' else ''declined'')"
    by blast+
  then show ?thesis by (simp add: decision_def)
qed

text \<open>
  The theorem at a request whose rule score and model score are both 0.75: the
  response is flagged as fraud and approved.
\<close>

theorem decision_thresholds_witness:
  "fst (process_transaction example_builtins
          (example_env \<lparr> model := Some (\<lambda>fs. ln (1 / 3)) \<rparr>)
          (example_world \<lparr> fraud_rules :=
             [example_rule \<lparr> rule_actions :=
                Some [(''risk_score'', JNum 0.75), (''flag'', JBool True)] \<rparr>] \<rparr>)
          (example_request \<lparr> amount := 6000 \<rparr>))
     = Inr \<lparr> transaction_id = ''id-1'', status = ''approved'', is_fraud = True,
            risk_score = 0.75, resp_rule_score = 0.75, ml_score = 0.75,
            message = Some ''Transaction processed successfully'', created_at = 1001 \<rparr>
   \<and> decision 0.75 = (True, True) \<and> decision 0.9 = (True, False) \<and> decision 0.5 = (False, True)"
  using decision_thresholds [of example_builtins
      "example_env \<lparr> model := Some (\<lambda>fs. ln (1 / 3)) \<rparr>"
      "example_world \<lparr> fraud_rules :=
             [example_rule \<lparr> rule_actions :=
                Some [(''risk_score'', JNum 0.75), (''flag'', JBool True)] \<rparr>] \<rparr>"
      "example_request \<lparr> amount := 6000 \<rparr>"
      "\<lparr> transaction_id = ''id-1'', status = ''approved'', is_fraud = True,
            risk_score = 0.75, resp_rule_score = 0.75, ml_score = 0.75,
            message = Some ''Transaction processed successfully'', created_at = 1001 \<rparr>"]
  by (simp add: idempotency_hit_def pipeline_defs example_defs Let_def ln_div exp_minus
      inverse_eq_divide)

section \<open>Persistence failure\<close>

lemma check_keeps_transactions:
  "transactions (snd (check_idempotency_key bi e w k body)) = transactions w"
  by (auto simp: check_idempotency_key_def set_idempotency_response_def
      split: sum.splits option.splits)

text \<open>
  Claim C9, as amended. When the database does not answer, the request is not answered
  from the idempotency cache, the model is loaded and the broker accepts the two task
  submissions, \<open>process_transaction\<close> returns a response; its creation time is the
  local clock, and no row is added to the ledger.
\<close>

theorem database_down_still_responds:
  assumes "\<not> db_up e" and "broker_up e" and "model e = Some f"
    and "\<not> idempotency_hit bi e w txn"
  shows "\<exists>r w'. process_transaction bi e w txn = (Inr r, w')
     \<and> created_at r = utcnow e \<and> transaction_id r = uuid4 e
     \<and> transactions w' = transactions w"
proof -
  let ?w = "snd (check_idempotency_key bi e w (idempotency_key txn) txn)"
  let ?p = "load_profile e ?w (user_id txn)"
  have p: "process_transaction bi e w txn = score_and_respond bi e ?w txn"
    using assms(4) by (rule process_transaction_miss)
  obtain ml where ml: "score_transaction bi e (transaction_data txn) (Some (fst ?p)) = Inr ml"
    using score_transaction_transaction_data(3)[OF assms(3)] by blast
  then have b: "0 < ml \<and> ml < 1" by (rule score_transaction_transaction_data(1))
  have rs: "0 \<le> compute_rule_score bi e (snd ?p) (transaction_data txn)"
      "compute_rule_score bi e (snd ?p) (transaction_data txn) \<le> 1"
    using compute_rule_score_range by blast+
  have t: "transactions (snd ?p) = transactions w"
    by (auto simp: load_profile_def set_user_profile_def check_keeps_transactions
        split: sum.splits option.splits)
  show ?thesis
    using assms(1,2) ml b rs t
    by (auto simp: p score_and_respond_def Let_def insert_transaction_def
        validate_response_def store_idempotency_key_def delay_def
        split: prod.splits)
qed

text \<open>The theorem at the example request with the database down.\<close>

theorem database_down_still_responds_witness:
  "process_transaction example_builtins (example_env \<lparr> db_up := False \<rparr>) example_world
      example_request
   = (Inr (example_response \<lparr> created_at := 1000 \<rparr>),
      example_world \<lparr> profile_cache := [''user123'' \<mapsto> (default_profile, 1300)],
        queue := [UpdateUserProfile ''user123'' (transaction_data example_request)] \<rparr>)"
  using database_down_still_responds [of "example_env \<lparr> db_up := False \<rparr>" "\<lambda>fs. 0"
      example_builtins example_world example_request]
  by (simp add: idempotency_hit_def pipeline_defs example_defs Let_def)

text \<open>
  Claim C9 as stated fails. With the database down and the broker down, the task
  submission after the persistence step raises and the request ends with that error;
  with the database down and no model, the request ends with the scorer's error before
  persistence; with the database down and a live cache entry for the key, the response
  is the cached one, whose creation time 1001 is not the local clock 2000.
\<close>

theorem persistence_failure_counterexample:
  "fst (process_transaction example_builtins
          (example_env \<lparr> db_up := False, broker_up := False \<rparr>) example_world example_request)
     = Inl ConnectionError
   \<and> fst (process_transaction example_builtins
          (example_env \<lparr> db_up := False, model := None \<rparr>) example_world example_request)
     = Inl ModelError
   \<and> fst (process_transaction example_builtins
          (example_env \<lparr> db_up := False, utcnow := 2000 \<rparr>)
          (example_world \<lparr> idem_cache := [''k1'' \<mapsto> (Some example_response, 87400)] \<rparr>)
          example_request)
     = Inr (example_response \<lparr> created_at := 1001 \<rparr>)"
  by (simp add: pipeline_defs example_defs Let_def)

section \<open>Idempotency resolution\<close>

text \<open>
  Claim C8, violated by the code. At the clock 1000, for a stored record that expired
  at 500 and carries another hash than the request's, \<open>check_idempotency_key\<close> raises
  the 409 conflict and keeps the record. For a record that expires at 500 and carries
  the request's hash, a check at 400 caches the response for 3600 seconds, and the
  check at 1000, after the expiry, returns the cached response: a hit. Only with the
  request's hash and no live cache entry is the expired record a miss and deleted.
\<close>

theorem expired_record_not_a_miss:
  "check_idempotency_key example_builtins example_env
     (example_world \<lparr> idempotency_keys :=
        [''k1'' \<mapsto> example_row \<lparr> request_hash := ''user123|k1|purchase|LA'',
                                    expires_at := 500 \<rparr>] \<rparr>)
     ''k1'' example_request
   = (Inl (HTTPException 409),
      example_world \<lparr> idempotency_keys :=
        [''k1'' \<mapsto> example_row \<lparr> request_hash := ''user123|k1|purchase|LA'',
                                    expires_at := 500 \<rparr>] \<rparr>)
   \<and> fst (check_idempotency_key example_builtins example_env
        (snd (check_idempotency_key example_builtins (example_env \<lparr> utcnow := 400 \<rparr>)
               (example_world \<lparr> idempotency_keys :=
                  [''k1'' \<mapsto> example_row \<lparr> expires_at := 500 \<rparr>] \<rparr>)
               ''k1'' example_request))
        ''k1'' example_request)
     = Inr (Some example_response)
   \<and> check_idempotency_key example_builtins example_env
       (example_world \<lparr> idempotency_keys :=
          [''k1'' \<mapsto> example_row \<lparr> expires_at := 500 \<rparr>] \<rparr>)
       ''k1'' example_request
     = (Inr None, example_world \<lparr> idempotency_keys := Map.empty \<rparr>)"
  by (simp add: check_idempotency_key_def get_idempotency_response_def
      set_idempotency_response_def generate_request_hash_def example_defs)

text \<open>
  Claim C2, violated by the code. \<open>store_idempotency_key\<close> never stores the
  dictionary of a response the pipeline has built: serialising its \<open>datetime\<close> raises,
  and \<open>process_transaction\<close> catches the exception. So after the example request has
  been processed, neither the table nor the cache holds anything for its key, and the
  identical request two seconds later is scored again and answered with a new
  transaction id.
\<close>

theorem identical_replay_new_transaction_id:
  "fst (store_idempotency_key bi e w k body (FromModel r) ttl_hours) \<noteq> Inr ()
   \<and> fst (process_transaction example_builtins example_env example_world example_request)
     = Inr example_response
   \<and> idempotency_keys
        (snd (process_transaction example_builtins example_env example_world example_request))
        ''k1'' = None
   \<and> idem_cache
        (snd (process_transaction example_builtins example_env example_world example_request))
        ''k1'' = None
   \<and> fst (process_transaction example_builtins
            (example_env \<lparr> utcnow := 1002, db_now := 1003, uuid4 := ''id-2'' \<rparr>)
            (snd (process_transaction example_builtins example_env example_world example_request))
            example_request)
     = Inr (example_response \<lparr> transaction_id := ''id-2'', created_at := 1002 \<rparr>)"
proof (rule conjI)
  show "fst (store_idempotency_key bi e w k body (FromModel r) ttl_hours) \<noteq> Inr ()"
    by (simp add: store_idempotency_key_def)
qed (simp add: pipeline_defs example_defs Let_def)

section \<open>Conflicting requests\<close>

text \<open>
  The exceptions that leave the scoring part are the scorer's and the broker's; so no
  HTTP error ever leaves \<open>process_transaction\<close>.
\<close>

lemma score_transaction_errors:
  "score_transaction bi e (transaction_data txn) (Some p) = Inl x \<Longrightarrow> x = ModelError"
  using extract_features_transaction_data[of bi e txn p]
  by (auto simp: score_transaction_def split: option.splits sum.splits)

lemma score_and_respond_errors:
  "fst (score_and_respond bi e w txn) = Inl x \<Longrightarrow> x = ModelError \<or> x = ConnectionError"
proof -
  assume a: "fst (score_and_respond bi e w txn) = Inl x"
  let ?p = "load_profile e w (user_id txn)"
  have rs: "0 \<le> compute_rule_score bi e (snd ?p) (transaction_data txn)"
      "compute_rule_score bi e (snd ?p) (transaction_data txn) \<le> 1"
    using compute_rule_score_range by blast+
  show ?thesis
  proof (cases "score_transaction bi e (transaction_data txn) (Some (fst ?p))")
    case (Inl y)
    then have "y = ModelError" by (rule score_transaction_errors)
    with Inl a show ?thesis
      by (auto simp: score_and_respond_def split: prod.splits)
  next
    case (Inr ml)
    then have "0 < ml \<and> ml < 1" by (rule score_transaction_transaction_data(1))
    with Inr rs a show ?thesis
      by (auto simp: score_and_respond_def Let_def validate_response_def delay_def
          split: prod.splits sum.splits if_splits)
  qed
qed

lemma process_transaction_never_conflict:
  "fst (process_transaction bi e w txn) \<noteq> Inl (HTTPException n)"
proof
  assume a: "fst (process_transaction bi e w txn) = Inl (HTTPException n)"
  show False
  proof (cases "idempotency_hit bi e w txn")
    case True
    with a show False
      by (auto simp: idempotency_hit_def process_transaction_def
          split: prod.splits sum.splits option.splits)
  next
    case False
    with a show False
      by (auto simp: process_transaction_miss dest: score_and_respond_errors)
  qed
qed

text \<open>
  Claim C1, violated by the code. No request is ever answered with the 409 conflict
  (or any other HTTP error). After the example request has been processed, a request
  with the same key and another location is scored and answered with a new transaction
  id. Where a response is stored under the key (the row of the example request, and a
  live cache entry), the request with another location is answered with the stored
  response: the cache is consulted before any hash is compared. With the row and no
  cache entry, \<open>check_idempotency_key\<close> raises the conflict, but
  \<open>process_transaction\<close> catches it with every other exception, scores the request
  and answers it with a new transaction id.
\<close>

theorem conflicting_body_answered_200:
  "fst (process_transaction bi e w txn) \<noteq> Inl (HTTPException n)
   \<and> fst (process_transaction example_builtins example_env example_world example_request)
     = Inr example_response
   \<and> fst (process_transaction example_builtins
            (example_env \<lparr> utcnow := 2000, db_now := 2001, uuid4 := ''id-2'' \<rparr>)
            (snd (process_transaction example_builtins example_env example_world example_request))
            (example_request \<lparr> location := Some ''LA'' \<rparr>))
     = Inr (example_response \<lparr> transaction_id := ''id-2'', created_at := 2000 \<rparr>)
   \<and> fst (process_transaction example_builtins
            (example_env \<lparr> utcnow := 2000, db_now := 2001, uuid4 := ''id-2'' \<rparr>)
            (example_world \<lparr> idem_cache := [''k1'' \<mapsto> (Some example_response, 87400)],
                             idempotency_keys := [''k1'' \<mapsto> example_row] \<rparr>)
            (example_request \<lparr> location := Some ''LA'' \<rparr>))
     = Inr example_response
   \<and> fst (check_idempotency_key example_builtins
            (example_env \<lparr> utcnow := 2000, db_now := 2001, uuid4 := ''id-2'' \<rparr>)
            (example_world \<lparr> idempotency_keys := [''k1'' \<mapsto> example_row] \<rparr>)
            ''k1'' (example_request \<lparr> location := Some ''LA'' \<rparr>))
     = Inl (HTTPException 409)
   \<and> fst (process_transaction example_builtins
            (example_env \<lparr> utcnow := 2000, db_now := 2001, uuid4 := ''id-2'' \<rparr>)
            (example_world \<lparr> idempotency_keys := [''k1'' \<mapsto> example_row] \<rparr>)
            (example_request \<lparr> location := Some ''LA'' \<rparr>))
     = Inr (example_response \<lparr> transaction_id := ''id-2'', created_at := 2001 \<rparr>)"
proof (rule conjI)
  show "fst (process_transaction bi e w txn) \<noteq> Inl (HTTPException n)"
    by (rule process_transaction_never_conflict)
qed (simp add: pipeline_defs example_defs Let_def)

end
